theory Spec2Isabelle
  imports Complex_Main
begin

section \<open>Data model (types.ts)\<close>

datatype Tone = PROFESSIONAL | CASUAL | HUMOROUS | CONTROVERSIAL | INSPIRATIONAL | TECHNICAL

text \<open>The string value of each member of the \<open>Tone\<close> enum, as a template literal prints it.\<close>

fun toneValue :: "Tone \<Rightarrow> string" where
  "toneValue PROFESSIONAL = ''Professional''"
| "toneValue CASUAL = ''Casual''"
| "toneValue HUMOROUS = ''Humorous''"
| "toneValue CONTROVERSIAL = ''Controversial''"
| "toneValue INSPIRATIONAL = ''Inspirational''"
| "toneValue TECHNICAL = ''Technical''"

datatype PostStatus = GENERATED | SCHEDULED | POSTED | FAILED

record UserProfile =
  handle :: string
  name :: string
  avatarUrl :: string
  isConnected :: bool
  interests :: "string list"
  language :: string
  preferredTone :: Tone
  autoPilot :: bool

text \<open>
  A clock reading (\<open>Date.now()\<close>, milliseconds since the epoch) is an \<open>int\<close>. The fields
  \<open>createdAt\<close> and \<open>scheduledTime\<close> hold the instant whose ISO rendering the source stores;
  the optional fields of the interface are options.
\<close>

record Tweet =
  tweet_id :: string
  content :: string
  status :: PostStatus
  scheduledTime :: "int option"
  createdAt :: int
  likes :: "nat option"
  retweets :: "nat option"

datatype NotificationType = Success | Error | Info

record NotificationItem =
  notif_id :: string
  message :: string
  notif_type :: NotificationType

section \<open>JavaScript primitives used by the sources\<close>

text \<open>\<open>Number.prototype.toString\<close> on an integer: decimal digits, with a minus sign.\<close>

definition digitChar :: "nat \<Rightarrow> char" where
  "digitChar d = char_of (48 + d)"

fun natString :: "nat \<Rightarrow> string" where
  "natString n = (if n < 10 then [digitChar n] else natString (n div 10) @ [digitChar (n mod 10)])"

declare natString.simps [simp del]

definition toString :: "int \<Rightarrow> string" where
  "toString i = (if i < 0 then CHR ''-'' # natString (nat (- i)) else natString (nat i))"

text \<open>
  \<open>String.prototype.trim\<close>: strips white space and line terminators at both ends.
  Characters are code units below 256.
\<close>

definition isWhiteSpace :: "char \<Rightarrow> bool" where
  "isWhiteSpace c \<longleftrightarrow>
     c \<in> set [CHR 0x09, CHR 0x0A, CHR 0x0B, CHR 0x0C, CHR 0x0D, CHR 0x20, CHR 0xA0]"

definition trim :: "string \<Rightarrow> string" where
  "trim s = rev (dropWhile isWhiteSpace (rev (dropWhile isWhiteSpace s)))"

text \<open>
  A value that a \<open>throw\<close> carries: an instance of \<open>Error\<close> with its message, or anything else.
\<close>

datatype thrown = ErrorObject string | OtherValue

text \<open>
  What awaiting \<open>ai.models.generateContent\<close> gives: the promise rejects with a thrown value,
  or it resolves to a response whose \<open>text\<close> may be undefined.
\<close>

datatype ai_outcome = Rejects thrown | Responds "string option"

text \<open>
  A value that \<open>JSON.parse\<close> gives. An object lists its members in the order of the text; a
  name that occurs twice stands for its last member.
\<close>

datatype json =
    JNull
  | JBool bool
  | JNumber real
  | JString string
  | JArray "json list"
  | JObject "(string \<times> json) list"

definition newline :: string where
  "newline = [CHR 0x0A]"

definition dquote :: string where
  "dquote = [CHR 0x22]"

section \<open>services/geminiService.ts\<close>

subsection \<open>generateTweetIdeas\<close>

text \<open>\<open>Array.prototype.join\<close> with a separator.\<close>

fun join :: "string \<Rightarrow> string list \<Rightarrow> string" where
  "join sep [] = []"
| "join sep [x] = x"
| "join sep (x # y # ys) = x @ sep @ join sep (y # ys)"

definition ideasPrompt :: "string list \<Rightarrow> string \<Rightarrow> Tone \<Rightarrow> int \<Rightarrow> string" where
  "ideasPrompt ints lang tone count =
     newline @ ''    You are an expert social media manager for Twitter (X).'' @
     newline @ ''    Generate '' @ toString count @
       '' distinct, engaging tweets based on the following parameters:'' @
     newline @ ''    '' @
     newline @ ''    Topics: '' @ join '', '' ints @
     newline @ ''    Language: '' @ lang @
     newline @ ''    Tone: '' @ toneValue tone @
     newline @ ''    '' @
     newline @ ''    Constraints:'' @
     newline @ ''    - Maximum 280 characters per tweet.'' @
     newline @ ''    - Include 1-2 relevant hashtags.'' @
     newline @ ''    - Do not use emojis excessively, keep it cleaner.'' @
     newline @ ''    - Return ONLY a JSON array of strings.'' @
     newline @ ''  ''"

text \<open>
  The body of the \<open>try\<close> block: \<open>Inl\<close> is a throw. \<open>JSON.parse\<close> is a parameter: it
  throws (\<open>Inl\<close>) or gives a value of any shape. The cast \<open>as string[]\<close> checks nothing
  when the program runs, so that value is returned as it is.
\<close>

definition ideasTry :: "(string \<Rightarrow> thrown + json) \<Rightarrow> ai_outcome \<Rightarrow> thrown + json" where
  "ideasTry parse outcome =
     (case outcome of
        Rejects e \<Rightarrow> Inl e
      | Responds None \<Rightarrow> Inl (ErrorObject ''Empty response from AI'')
      | Responds (Some jsonStr) \<Rightarrow>
          if jsonStr = [] then Inl (ErrorObject ''Empty response from AI'') else parse jsonStr)"

text \<open>The \<open>catch\<close> block: two placeholder strings.\<close>

definition ideasFallback :: "string list \<Rightarrow> thrown \<Rightarrow> string list" where
  "ideasFallback ints e =
     [''Could not connect to AI: '' @
        (case e of ErrorObject m \<Rightarrow> m | OtherValue \<Rightarrow> ''Unknown error'') @ ''. Check API Key.'',
      ''Here is a sample tweet about '' @
        (case ints of [] \<Rightarrow> ''tech'' | x # _ \<Rightarrow> if x = [] then ''tech'' else x) @
        '' generated locally as fallback.'']"

text \<open>
  The whole function. The collaborator \<open>ai\<close> maps the prompt it is sent to the outcome of the
  request; the result is \<open>Inl\<close> when the returned promise rejects, and otherwise the value
  that the promise resolves to, whatever its shape.
\<close>

definition generateTweetIdeas ::
  "(string \<Rightarrow> ai_outcome) \<Rightarrow> (string \<Rightarrow> thrown + json) \<Rightarrow>
     string list \<Rightarrow> string \<Rightarrow> Tone \<Rightarrow> int \<Rightarrow> thrown + json" where
  "generateTweetIdeas ai parse ints lang tone count =
     (if ints = [] then Inr (JArray [JString ''Please add some interests to generate tweets.''])
      else
        let prompt = ideasPrompt ints lang tone count in
        case ideasTry parse (ai prompt) of
          Inr parsed \<Rightarrow> Inr parsed
        | Inl e \<Rightarrow> Inr (JArray (map JString (ideasFallback ints e))))"

subsection \<open>generateAutoTweet\<close>

text \<open>
  \<open>interests[Math.floor(Math.random() * interests.length)]\<close>, with \<open>r\<close> the value of
  \<open>Math.random()\<close>; an index outside the array reads \<open>undefined\<close>, which a template
  literal prints as that word.
\<close>

definition pickInterest :: "real \<Rightarrow> string list \<Rightarrow> string" where
  "pickInterest r ints =
     (let i = \<lfloor>r * real (length ints)\<rfloor>
      in if 0 \<le> i \<and> i < int (length ints) then ints ! nat i else ''undefined'')"

definition autoPrompt :: "string \<Rightarrow> string \<Rightarrow> Tone \<Rightarrow> string" where
  "autoPrompt randomInterest lang tone =
     newline @ ''    Write ONE engaging Twitter post about '' @
       dquote @ randomInterest @ dquote @ ''.'' @
     newline @ ''    Language: '' @ lang @
     newline @ ''    Tone: '' @ toneValue tone @
     newline @ ''    Context: This is an automated post for a professional feed.'' @
     newline @ ''    Constraints: Under 280 chars. 1 hashtag. No hashtags in the beginning.'' @
     newline @ ''    Return ONLY the raw text of the tweet.'' @
     newline @ ''  ''"

text \<open>
  The function runs up to its \<open>await\<close> and is resumed with the outcome of the request.
  Before the await it has either returned already (no topics) or sent one prompt, holding on
  to the topic it picked.
\<close>

datatype auto_request = Returned string | Awaiting string string

definition autoTweetBegin :: "real \<Rightarrow> string list \<Rightarrow> string \<Rightarrow> Tone \<Rightarrow> auto_request" where
  "autoTweetBegin r ints lang tone =
     (if ints = [] then Returned ''I need interests to generate a tweet!''
      else
        let randomInterest = pickInterest r ints
        in Awaiting randomInterest (autoPrompt randomInterest lang tone))"

text \<open>The body of the \<open>try\<close> block after the await: \<open>response.text?.trim() || ...\<close>.\<close>

definition autoTweetTry :: "string \<Rightarrow> ai_outcome \<Rightarrow> thrown + string" where
  "autoTweetTry randomInterest outcome =
     (case outcome of
        Rejects e \<Rightarrow> Inl e
      | Responds None \<Rightarrow> Inr (''Checking out the latest in '' @ randomInterest @ ''!'')
      | Responds (Some t) \<Rightarrow>
          if trim t = [] then Inr (''Checking out the latest in '' @ randomInterest @ ''!'')
          else Inr (trim t))"

fun autoTweetResume :: "auto_request \<Rightarrow> ai_outcome \<Rightarrow> thrown + string" where
  "autoTweetResume (Returned txt) outcome = Inr txt"
| "autoTweetResume (Awaiting randomInterest prompt) outcome =
     (case autoTweetTry randomInterest outcome of
        Inr txt \<Rightarrow> Inr txt
      | Inl e \<Rightarrow> Inr (''Excited to learn more about '' @ randomInterest @ ''! #learning''))"

text \<open>The prompts a started call has sent to the collaborator.\<close>

fun promptsSent :: "auto_request \<Rightarrow> string list" where
  "promptsSent (Returned txt) = []"
| "promptsSent (Awaiting randomInterest prompt) = [prompt]"

definition generateAutoTweet ::
  "(string \<Rightarrow> ai_outcome) \<Rightarrow> real \<Rightarrow> string list \<Rightarrow> string \<Rightarrow> Tone \<Rightarrow> thrown + string" where
  "generateAutoTweet ai r ints lang tone =
     (case autoTweetBegin r ints lang tone of
        Returned txt \<Rightarrow> Inr txt
      | Awaiting randomInterest prompt \<Rightarrow>
          autoTweetResume (Awaiting randomInterest prompt) (ai prompt))"

section \<open>The application state (App component)\<close>

datatype View = Dashboard | Create | Queue | Settings

text \<open>
  The component's state hooks and its ref, together with the part of the environment that the
  auto-pilot logic acts on: the interval timers that are active in the browser (each with the
  \<open>user\<close> value that its callback closed over), the next timer handle, the generation
  requests that are awaiting the collaborator, and the prompts sent to it so far.
  A timer handle is a positive number, so the ref is empty exactly when it is \<open>None\<close>.
\<close>

record AppState =
  view :: View
  user :: UserProfile
  posts :: "Tweet list"
  generatedOptions :: "string list"
  isGenerating :: bool
  isConnecting :: bool
  newInterest :: string
  notifications :: "NotificationItem list"
  autoPilotIntervalRef :: "nat option"
  intervals :: "(nat \<times> UserProfile) list"
  nextHandle :: nat
  inflight :: "auto_request list"
  aiCalls :: "string list"

definition initialUser :: UserProfile where
  "initialUser =
     \<lparr>handle = ''@alex_dev'', name = ''Alex Developer'',
      avatarUrl = ''https://picsum.photos/seed/alex/200'', isConnected = False,
      interests = [''React'', ''AI'', ''Startup''], language = ''English'',
      preferredTone = PROFESSIONAL, autoPilot = False\<rparr>"

definition initialState :: AppState where
  "initialState =
     \<lparr>view = Dashboard, user = initialUser, posts = [], generatedOptions = [],
      isGenerating = False, isConnecting = False, newInterest = [], notifications = [],
      autoPilotIntervalRef = None, intervals = [], nextHandle = 1, inflight = [],
      aiCalls = []\<rparr>"

subsection \<open>Helpers\<close>

text \<open>Every clock reading that a piece of code takes is an argument of its model.\<close>

definition addNotification :: "int \<Rightarrow> string \<Rightarrow> NotificationType \<Rightarrow> AppState \<Rightarrow> AppState" where
  "addNotification now msg ty s =
     s\<lparr>notifications :=
         notifications s @ [\<lparr>notif_id = toString now, message = msg, notif_type = ty\<rparr>]\<rparr>"

definition removeNotification :: "string \<Rightarrow> AppState \<Rightarrow> AppState" where
  "removeNotification i s =
     s\<lparr>notifications := filter (\<lambda>n. notif_id n \<noteq> i) (notifications s)\<rparr>"

definition setInterval :: "UserProfile \<Rightarrow> AppState \<Rightarrow> nat \<times> AppState" where
  "setInterval captured s =
     (nextHandle s,
      s\<lparr>intervals := intervals s @ [(nextHandle s, captured)], nextHandle := Suc (nextHandle s)\<rparr>)"

definition clearInterval :: "nat \<Rightarrow> AppState \<Rightarrow> AppState" where
  "clearInterval h s = s\<lparr>intervals := filter (\<lambda>t. fst t \<noteq> h) (intervals s)\<rparr>"

subsection \<open>The auto-pilot effect\<close>

text \<open>The function that the effect returns, run before the effect runs again.\<close>

definition autoPilotCleanup :: "AppState \<Rightarrow> AppState" where
  "autoPilotCleanup s =
     (case autoPilotIntervalRef s of
        Some h \<Rightarrow> clearInterval h s
      | None \<Rightarrow> s)"

text \<open>The body of the effect; the callback it installs closes over the \<open>user\<close> of this render.\<close>

definition autoPilotEffect :: "int \<Rightarrow> AppState \<Rightarrow> AppState" where
  "autoPilotEffect now s =
     (if autoPilot (user s) \<and> isConnected (user s) then
        (case autoPilotIntervalRef s of
           None \<Rightarrow>
             (let s1 = addNotification now ''Auto-Pilot engaged. AI will post periodically.'' Success s;
                  (h, s2) = setInterval (user s) s1
              in s2\<lparr>autoPilotIntervalRef := Some h\<rparr>)
         | Some h \<Rightarrow> s)
      else
        (case autoPilotIntervalRef s of
           Some h \<Rightarrow>
             addNotification now ''Auto-Pilot disengaged.'' Info
               ((clearInterval h s)\<lparr>autoPilotIntervalRef := None\<rparr>)
         | None \<Rightarrow> s))"

text \<open>
  A render after which a dependency of the effect differs: the previous cleanup, then the body.
\<close>

definition autoPilotRerun :: "int \<Rightarrow> AppState \<Rightarrow> AppState" where
  "autoPilotRerun now s = autoPilotEffect now (autoPilotCleanup s)"

text \<open>The effect that loads the initial posts; it depends on \<open>user.isConnected\<close> only.\<close>

definition initialDataEffect :: "int \<Rightarrow> int \<Rightarrow> int \<Rightarrow> AppState \<Rightarrow> AppState" where
  "initialDataEffect ta tb tc s =
     (if isConnected (user s) then
        s\<lparr>posts :=
          [\<lparr>tweet_id = ''1'',
            content = ''Just deployed my first React 18 app! The concurrent features are game-changing. #ReactJS #WebDev'',
            status = POSTED, scheduledTime = None, createdAt = ta - 86400000,
            likes = Some 42, retweets = Some 5\<rparr>,
           \<lparr>tweet_id = ''2'',
            content = ''AI is not replacing developers, it is augmenting them. Learning to prompt is the new syntax. #AI #Coding'',
            status = SCHEDULED, scheduledTime = Some (tb + 3600000), createdAt = tc,
            likes = None, retweets = None\<rparr>]\<rparr>
      else s)"

subsection \<open>The interval callback\<close>

text \<open>
  What the callback does once \<open>generateAutoTweet\<close> has settled: the rest of the \<open>try\<close>
  block, or the \<open>catch\<close> block, which only logs.
\<close>

definition callbackSettled :: "thrown + string \<Rightarrow> int \<Rightarrow> int \<Rightarrow> int \<Rightarrow> AppState \<Rightarrow> AppState" where
  "callbackSettled result t1 t2 t3 s =
     (case result of
        Inr tweetContent \<Rightarrow>
          (let newPost = \<lparr>tweet_id = toString t1, content = tweetContent, status = POSTED,
                           scheduledTime = None, createdAt = t2,
                           likes = Some 0, retweets = Some 0\<rparr>
           in addNotification t3 ''Auto-Pilot just posted a new tweet!'' Success
                (s\<lparr>posts := newPost # posts s\<rparr>))
      | Inl e \<Rightarrow> s)"

text \<open>
  The timer with handle \<open>h\<close> fires; a cleared timer never does. The callback calls
  \<open>generateAutoTweet\<close> with the values it closed over. With no topics that call returns at
  once and the callback goes on; otherwise one prompt is sent and the callback waits.
\<close>

definition intervalFires :: "nat \<Rightarrow> real \<Rightarrow> int \<Rightarrow> int \<Rightarrow> int \<Rightarrow> AppState \<Rightarrow> AppState" where
  "intervalFires h r t1 t2 t3 s =
     (case map_of (intervals s) h of
        None \<Rightarrow> s
      | Some u \<Rightarrow>
          (case autoTweetBegin r (interests u) (language u) (preferredTone u) of
             Returned txt \<Rightarrow> callbackSettled (Inr txt) t1 t2 t3 s
           | Awaiting randomInterest prompt \<Rightarrow>
               s\<lparr>aiCalls := aiCalls s @ [prompt],
                 inflight := inflight s @ [Awaiting randomInterest prompt]\<rparr>))"

text \<open>The \<open>i\<close>-th waiting request settles with \<open>outcome\<close> and its callback goes on.\<close>

definition requestSettles :: "nat \<Rightarrow> ai_outcome \<Rightarrow> int \<Rightarrow> int \<Rightarrow> int \<Rightarrow> AppState \<Rightarrow> AppState" where
  "requestSettles i outcome t1 t2 t3 s =
     (if i < length (inflight s) then
        callbackSettled (autoTweetResume (inflight s ! i) outcome) t1 t2 t3
          (s\<lparr>inflight := take i (inflight s) @ drop (Suc i) (inflight s)\<rparr>)
      else s)"

text \<open>
  One generation cycle: the timer fires and the request it sends, if any, settles with
  \<open>outcome\<close> before anything else happens.
\<close>

definition autoPilotCycle :: "nat \<Rightarrow> real \<Rightarrow> ai_outcome \<Rightarrow> int \<Rightarrow> int \<Rightarrow> int \<Rightarrow> AppState \<Rightarrow> AppState" where
  "autoPilotCycle h r outcome t1 t2 t3 s =
     (let s1 = intervalFires h r t1 t2 t3 s
      in if length (inflight s) < length (inflight s1)
         then requestSettles (length (inflight s)) outcome t1 t2 t3 s1
         else s1)"

subsection \<open>Handlers\<close>

definition handleConnect :: "AppState \<Rightarrow> AppState" where
  "handleConnect s = s\<lparr>isConnecting := True\<rparr>"

text \<open>
  The timeout that \<open>handleConnect\<close> sets, followed by the render: when \<open>isConnected\<close>
  changed, both effects run.
\<close>

definition connectTimeout :: "int \<Rightarrow> int \<Rightarrow> int \<Rightarrow> int \<Rightarrow> int \<Rightarrow> AppState \<Rightarrow> AppState" where
  "connectTimeout t1 ta tb tc te s =
     (let s1 = s\<lparr>user := (user s)\<lparr>isConnected := True\<rparr>, isConnecting := False\<rparr>;
          s2 = addNotification t1 ''Successfully connected to Twitter account @alex_dev'' Success s1
      in if isConnected (user s) then s2
         else autoPilotEffect te (initialDataEffect ta tb tc (autoPilotCleanup s2)))"

definition handleSchedule :: "string \<Rightarrow> int \<Rightarrow> int \<Rightarrow> int \<Rightarrow> int \<Rightarrow> AppState \<Rightarrow> AppState" where
  "handleSchedule c t1 t2 t3 t4 s =
     (let newPost = \<lparr>tweet_id = toString t1, content = c, status = SCHEDULED,
                      scheduledTime = Some (t3 + 7200000), createdAt = t2,
                      likes = None, retweets = None\<rparr>
      in (addNotification t4 ''Tweet scheduled for later.'' Success
            (s\<lparr>posts := newPost # posts s,
               generatedOptions := filter (\<lambda>t. t \<noteq> c) (generatedOptions s)\<rparr>))
         \<lparr>view := Queue\<rparr>)"

definition handlePostNow :: "string \<Rightarrow> int \<Rightarrow> int \<Rightarrow> int \<Rightarrow> AppState \<Rightarrow> AppState" where
  "handlePostNow c t1 t2 t3 s =
     (let newPost = \<lparr>tweet_id = toString t1, content = c, status = POSTED,
                      scheduledTime = None, createdAt = t2,
                      likes = Some 0, retweets = Some 0\<rparr>
      in (addNotification t3 ''Published successfully!'' Success
            (s\<lparr>posts := newPost # posts s,
               generatedOptions := filter (\<lambda>t. t \<noteq> c) (generatedOptions s)\<rparr>))
         \<lparr>view := Dashboard\<rparr>)"

definition handleDeletePost :: "string \<Rightarrow> int \<Rightarrow> AppState \<Rightarrow> AppState" where
  "handleDeletePost i t1 s =
     addNotification t1 ''Post removed.'' Info
       (s\<lparr>posts := filter (\<lambda>p. tweet_id p \<noteq> i) (posts s)\<rparr>)"

text \<open>
  The handlers that change \<open>user\<close>. A new \<open>interests\<close> array is a changed dependency
  whatever it holds; \<open>language\<close>, \<open>preferredTone\<close> and \<open>autoPilot\<close> are compared by value.
\<close>

definition handleAddInterest :: "int \<Rightarrow> int \<Rightarrow> AppState \<Rightarrow> AppState" where
  "handleAddInterest t1 te s =
     (if newInterest s \<noteq> [] \<and> newInterest s \<notin> set (interests (user s)) then
        autoPilotRerun te
          (addNotification t1 (''Added topic: '' @ newInterest s) Success
             (s\<lparr>user := (user s)\<lparr>interests := interests (user s) @ [newInterest s]\<rparr>,
                newInterest := []\<rparr>))
      else s)"

definition addSuggestion :: "string \<Rightarrow> int \<Rightarrow> int \<Rightarrow> AppState \<Rightarrow> AppState" where
  "addSuggestion suggestion t1 te s =
     (if suggestion \<notin> set (interests (user s)) then
        autoPilotRerun te
          (addNotification t1 (''Added topic: '' @ suggestion) Success
             (s\<lparr>user := (user s)\<lparr>interests := interests (user s) @ [suggestion]\<rparr>\<rparr>))
      else s)"

definition removeInterest :: "string \<Rightarrow> int \<Rightarrow> AppState \<Rightarrow> AppState" where
  "removeInterest interest te s =
     autoPilotRerun te
       (s\<lparr>user := (user s)\<lparr>interests := filter (\<lambda>i. i \<noteq> interest) (interests (user s))\<rparr>\<rparr>)"

definition setLanguage :: "string \<Rightarrow> int \<Rightarrow> AppState \<Rightarrow> AppState" where
  "setLanguage v te s =
     (let s1 = s\<lparr>user := (user s)\<lparr>language := v\<rparr>\<rparr>
      in if v = language (user s) then s1 else autoPilotRerun te s1)"

definition setPreferredTone :: "Tone \<Rightarrow> int \<Rightarrow> AppState \<Rightarrow> AppState" where
  "setPreferredTone v te s =
     (let s1 = s\<lparr>user := (user s)\<lparr>preferredTone := v\<rparr>\<rparr>
      in if v = preferredTone (user s) then s1 else autoPilotRerun te s1)"

definition toggleAutoPilot :: "int \<Rightarrow> AppState \<Rightarrow> AppState" where
  "toggleAutoPilot te s =
     autoPilotRerun te (s\<lparr>user := (user s)\<lparr>autoPilot := \<not> autoPilot (user s)\<rparr>\<rparr>)"

text \<open>\<open>String.prototype.includes\<close>: the argument occurs somewhere in the string.\<close>

definition includesStr :: "string \<Rightarrow> string \<Rightarrow> bool" where
  "includesStr str sub = list_ex (\<lambda>i. take (length sub) (drop i str) = sub) [0..<Suc (length str)]"

text \<open>A member of an object by its name; \<open>None\<close> is \<open>undefined\<close>.\<close>

definition objectMember :: "(string \<times> json) list \<Rightarrow> string \<Rightarrow> json option" where
  "objectMember ms key = map_of (rev ms) key"

text \<open>
  \<open>x > 0\<close> for a value \<open>x\<close> read from an object. Strings, arrays and objects are first
  turned into a number by the language; that conversion is the parameter \<open>coerce\<close>.
\<close>

fun greaterThanZero :: "(json \<Rightarrow> bool) \<Rightarrow> json \<Rightarrow> bool" where
  "greaterThanZero coerce JNull = False"
| "greaterThanZero coerce (JBool b) = b"
| "greaterThanZero coerce (JNumber n) = (0 < n)"
| "greaterThanZero coerce (JString x) = coerce (JString x)"
| "greaterThanZero coerce (JArray es) = coerce (JArray es)"
| "greaterThanZero coerce (JObject ms) = coerce (JObject ms)"

text \<open>
  \<open>results.length > 0\<close>: reading a property of \<open>null\<close> throws; booleans and numbers have
  no \<open>length\<close>, and \<open>undefined > 0\<close> is false.
\<close>

fun lengthPositive :: "(json \<Rightarrow> bool) \<Rightarrow> json \<Rightarrow> bool option" where
  "lengthPositive coerce JNull = None"
| "lengthPositive coerce (JBool b) = Some False"
| "lengthPositive coerce (JNumber n) = Some False"
| "lengthPositive coerce (JString x) = Some (0 < length x)"
| "lengthPositive coerce (JArray es) = Some (0 < length es)"
| "lengthPositive coerce (JObject ms) =
     (case objectMember ms ''length'' of
        None \<Rightarrow> Some False
      | Some v \<Rightarrow> Some (greaterThanZero coerce v))"

text \<open>\<open>results[0]\<close>, read only after \<open>results.length\<close> was; \<open>None\<close> is \<open>undefined\<close>.\<close>

fun firstElement :: "json \<Rightarrow> json option" where
  "firstElement JNull = None"
| "firstElement (JBool b) = None"
| "firstElement (JNumber n) = None"
| "firstElement (JString x) = (case x of [] \<Rightarrow> None | c # cs \<Rightarrow> Some (JString [c]))"
| "firstElement (JArray es) = (case es of [] \<Rightarrow> None | e # others \<Rightarrow> Some e)"
| "firstElement (JObject ms) = objectMember ms ''0''"

text \<open>
  \<open>.includes("Error")\<close> on that element: a string looks for the text, an array for an
  element equal to it; nothing else has a method of this name, and calling it throws.
\<close>

fun includesError :: "json option \<Rightarrow> bool option" where
  "includesError None = None"
| "includesError (Some (JString x)) = Some (includesStr x ''Error'')"
| "includesError (Some (JArray es)) = Some (JString ''Error'' \<in> set es)"
| "includesError (Some JNull) = None"
| "includesError (Some (JBool b)) = None"
| "includesError (Some (JNumber n)) = None"
| "includesError (Some (JObject ms)) = None"

text \<open>
  The test \<open>results.length > 0 && results[0].includes("Error")\<close> on the value that
  \<open>generateTweetIdeas\<close> resolved to; \<open>None\<close> is a \<open>TypeError\<close>.
\<close>

definition resultsLookFailed :: "(json \<Rightarrow> bool) \<Rightarrow> json \<Rightarrow> bool option" where
  "resultsLookFailed coerce results =
     (case lengthPositive coerce results of
        None \<Rightarrow> None
      | Some False \<Rightarrow> Some False
      | Some True \<Rightarrow> includesError (firstElement results))"

text \<open>The strings of a value that is an array of strings, which is what the state holds.\<close>

fun stringOf :: "json \<Rightarrow> string option" where
  "stringOf (JString x) = Some x"
| "stringOf JNull = None"
| "stringOf (JBool b) = None"
| "stringOf (JNumber n) = None"
| "stringOf (JArray es) = None"
| "stringOf (JObject ms) = None"

fun stringArray :: "json \<Rightarrow> string list option" where
  "stringArray (JArray es) = those (map stringOf es)"
| "stringArray JNull = None"
| "stringArray (JBool b) = None"
| "stringArray (JNumber n) = None"
| "stringArray (JString x) = None"
| "stringArray (JObject ms) = None"

text \<open>
  How a call of \<open>handleGenerate\<close> ends, with the state it leaves: the handler ran to its
  end; or something was thrown after the await, so that the promise of the handler rejects
  and \<open>setIsGenerating(false)\<close> is never reached; or the handler ran to its end and handed
  \<open>setGeneratedOptions\<close> a value that is not an array of strings, which the state below
  does not hold (its \<open>generatedOptions\<close> is left empty).
\<close>

datatype generate_result =
    Finished AppState
  | HandlerRejects AppState
  | StoredRaw json AppState

fun stateAfter :: "generate_result \<Rightarrow> AppState" where
  "stateAfter (Finished s) = s"
| "stateAfter (HandlerRejects s) = s"
| "stateAfter (StoredRaw v s) = s"

text \<open>
  \<open>handleGenerate\<close>, with the await taken in one go: nothing after the await reads the
  state. The prompt that \<open>generateTweetIdeas\<close> sends is recorded with the others.
\<close>

definition handleGenerate ::
  "(string \<Rightarrow> ai_outcome) \<Rightarrow> (string \<Rightarrow> thrown + json) \<Rightarrow> (json \<Rightarrow> bool) \<Rightarrow> int \<Rightarrow>
     AppState \<Rightarrow> generate_result" where
  "handleGenerate ai parse coerce t1 s =
     (if interests (user s) = [] then
        Finished (addNotification t1 ''Please add at least one interest topic first.'' Error s)
      else
        let s1 = s\<lparr>isGenerating := True, generatedOptions := [],
                   aiCalls := aiCalls s @
                     [ideasPrompt (interests (user s)) (language (user s))
                        (preferredTone (user s)) 3]\<rparr> in
        case generateTweetIdeas ai parse (interests (user s)) (language (user s))
               (preferredTone (user s)) 3 of
          Inl e \<Rightarrow> HandlerRejects s1
        | Inr results \<Rightarrow>
            (case resultsLookFailed coerce results of
               None \<Rightarrow> HandlerRejects s1
             | Some True \<Rightarrow>
                 Finished
                   ((addNotification t1 ''Failed to generate ideas. Check API Key.'' Error s1)
                      \<lparr>isGenerating := False\<rparr>)
             | Some False \<Rightarrow>
                 (case stringArray results of
                    Some tweets \<Rightarrow>
                      Finished
                        ((addNotification t1 ''Generated new content ideas!'' Success
                            (s1\<lparr>generatedOptions := tweets\<rparr>))\<lparr>isGenerating := False\<rparr>)
                  | None \<Rightarrow>
                      StoredRaw results
                        ((addNotification t1 ''Generated new content ideas!'' Success s1)
                           \<lparr>isGenerating := False\<rparr>))))"

section \<open>Runs of the application\<close>

text \<open>
  What can happen to the mounted component: a handler wired to the page runs, the timer
  fires, or a waiting request settles. Each event carries the values that the environment
  supplies (clock readings, the random number, the outcome of a request).
\<close>

datatype event =
    Connect
  | ConnectTimeout int int int int int
  | Generate "string \<Rightarrow> ai_outcome" "string \<Rightarrow> thrown + json" "json \<Rightarrow> bool" int
  | Schedule string int int int int
  | PostNow string int int int
  | DeletePost string int
  | CloseNotification string
  | TypeInterest string
  | AddInterest int int
  | AddSuggestion string int int
  | RemoveInterest string int
  | SetLanguage string int
  | SetTone Tone int
  | ToggleAutoPilot int
  | IntervalFires nat real int int int
  | RequestSettles nat ai_outcome int int int

fun step :: "event \<Rightarrow> AppState \<Rightarrow> AppState" where
  "step Connect s = handleConnect s"
| "step (ConnectTimeout t1 ta tb tc te) s = connectTimeout t1 ta tb tc te s"
| "step (Generate ai parse coerce t1) s = stateAfter (handleGenerate ai parse coerce t1 s)"
| "step (Schedule c t1 t2 t3 t4) s = handleSchedule c t1 t2 t3 t4 s"
| "step (PostNow c t1 t2 t3) s = handlePostNow c t1 t2 t3 s"
| "step (DeletePost i t1) s = handleDeletePost i t1 s"
| "step (CloseNotification i) s = removeNotification i s"
| "step (TypeInterest v) s = s\<lparr>newInterest := v\<rparr>"
| "step (AddInterest t1 te) s = handleAddInterest t1 te s"
| "step (AddSuggestion v t1 te) s = addSuggestion v t1 te s"
| "step (RemoveInterest v te) s = removeInterest v te s"
| "step (SetLanguage v te) s = setLanguage v te s"
| "step (SetTone v te) s = setPreferredTone v te s"
| "step (ToggleAutoPilot te) s = toggleAutoPilot te s"
| "step (IntervalFires h r t1 t2 t3) s = intervalFires h r t1 t2 t3 s"
| "step (RequestSettles i outcome t1 t2 t3) s = requestSettles i outcome t1 t2 t3 s"

definition run :: "event list \<Rightarrow> AppState \<Rightarrow> AppState" where
  "run es s = fold step es s"

text \<open>
  The relation between the ref, the active timers and \<open>user\<close> that every run keeps: with an
  empty ref no timer is active; with a handle in the ref auto-pilot is on, the account is
  connected, and the only timer that can be active is the one with that handle, whose
  callback closed over the current \<open>user\<close>.
\<close>

definition timerInv :: "AppState \<Rightarrow> bool" where
  "timerInv s =
     (case autoPilotIntervalRef s of
        None \<Rightarrow> intervals s = []
      | Some h \<Rightarrow>
          autoPilot (user s) \<and> isConnected (user s) \<and>
          (intervals s = [] \<or> intervals s = [(h, user s)]))"

subsection \<open>Some runs\<close>

definition connectedState :: AppState where
  "connectedState = run [Connect, ConnectTimeout 1700000001500 1700000001510 1700000001510 1700000001510 1700000001520] initialState"

definition armedState :: AppState where
  "armedState = run [ToggleAutoPilot 1700000005000] connectedState"

definition noTopicsState :: AppState where
  "noTopicsState =
     run [RemoveInterest ''React'' 1700000002000, RemoveInterest ''AI'' 1700000003000,
          RemoveInterest ''Startup'' 1700000004000] connectedState"

definition noTopicsArmed :: AppState where
  "noTopicsArmed = run [ToggleAutoPilot 1700000005000] noTopicsState"

text \<open>The language is edited while auto-pilot is on.\<close>

definition languageChanged :: AppState where
  "languageChanged = run [SetLanguage ''French'' 1700000008000] armedState"

text \<open>The tone is changed while auto-pilot is on.\<close>

definition toneChanged :: AppState where
  "toneChanged = run [SetTone CASUAL 1700000008000] armedState"

text \<open>The timer fires, and auto-pilot is switched off while the request is waiting.\<close>

definition waitingState :: AppState where
  "waitingState =
     run [IntervalFires 1 0 1700000015000 1700000015000 1700000015000] armedState"

definition stoppedWhileWaiting :: AppState where
  "stoppedWhileWaiting = run [ToggleAutoPilot 1700000016000] waitingState"

text \<open>Two candidates are published at one reading of the clock.\<close>

definition postedTwice :: AppState where
  "postedTwice =
     run [PostNow ''first'' 1700000009000 1700000009000 1700000009000,
          PostNow ''second'' 1700000009000 1700000009000 1700000009000] connectedState"

text \<open>
  The collaborator answers a manual request with the text \<open>null\<close>, and with the text
  \<open>[1, 2]\<close>; \<open>JSON.parse\<close> on these two texts.
\<close>

definition parseLiteral :: "string \<Rightarrow> thrown + json" where
  "parseLiteral jsonStr =
     (if jsonStr = ''null'' then Inr JNull
      else if jsonStr = ''[1, 2]'' then Inr (JArray [JNumber 1, JNumber 2])
      else Inl (ErrorObject ''Unexpected token''))"

section \<open>The generation service never raises\<close>

lemma autoTweetResume_Inr: "\<exists>tweet. autoTweetResume req outcome = Inr tweet"
  by (cases req) (auto simp: autoTweetTry_def split: ai_outcome.splits option.splits sum.splits)

lemma generateAutoTweet_Inr: "\<exists>tweet. generateAutoTweet ai r ints lang tone = Inr tweet"
  by (auto simp: generateAutoTweet_def autoTweetTry_def
      split: auto_request.splits ai_outcome.splits option.splits sum.splits)

lemma generateTweetIdeas_resolves:
  "(\<exists>results. generateTweetIdeas ai parse ints lang tone count = Inr results) \<and>
   (ints \<noteq> [] \<and> ai (ideasPrompt ints lang tone count) = Rejects e \<longrightarrow>
      generateTweetIdeas ai parse ints lang tone count =
        Inr (JArray (map JString (ideasFallback ints e)))) \<and>
   (ints \<noteq> [] \<and> ai (ideasPrompt ints lang tone count) = Responds None \<longrightarrow>
      generateTweetIdeas ai parse ints lang tone count =
        Inr (JArray (map JString (ideasFallback ints (ErrorObject ''Empty response from AI''))))) \<and>
   (ints \<noteq> [] \<and> ai (ideasPrompt ints lang tone count) = Responds (Some []) \<longrightarrow>
      generateTweetIdeas ai parse ints lang tone count =
        Inr (JArray (map JString (ideasFallback ints (ErrorObject ''Empty response from AI''))))) \<and>
   (ints \<noteq> [] \<and> ai (ideasPrompt ints lang tone count) = Responds (Some j) \<and> j \<noteq> [] \<and>
      parse j = Inl e \<longrightarrow>
      generateTweetIdeas ai parse ints lang tone count =
        Inr (JArray (map JString (ideasFallback ints e)))) \<and>
   (ints \<noteq> [] \<and> ai (ideasPrompt ints lang tone count) = Responds (Some j) \<and> j \<noteq> [] \<and>
      parse j = Inr parsed \<longrightarrow>
      generateTweetIdeas ai parse ints lang tone count = Inr parsed) \<and>
   length (ideasFallback ints e) = 2"
proof -
  have "\<exists>results. generateTweetIdeas ai parse ints lang tone count = Inr results"
    by (simp add: generateTweetIdeas_def Let_def split: sum.splits)
  then show ?thesis
    by (simp add: generateTweetIdeas_def ideasTry_def ideasFallback_def Let_def)
qed

lemma connectedState_user: "user connectedState = initialUser\<lparr>isConnected := True\<rparr>"
  by (simp add: connectedState_def initialState_def initialUser_def run_def handleConnect_def
      connectTimeout_def addNotification_def autoPilotEffect_def autoPilotCleanup_def
      initialDataEffect_def)

text \<open>
  Claim C8, at an input where the code departs from it. The collaborator answers with text
  that is JSON of another shape than an array of strings. \<open>generateTweetIdeas\<close> does not
  raise, as claimed, but it does not return the placeholder strings either: the parsed value
  goes through the unchecked cast \<open>as string[]\<close> to the caller. With \<open>null\<close> and with an
  array of numbers the caller then throws after its await, with the generating flag left on.
\<close>

theorem malformed_response_reaches_caller:
  "generateTweetIdeas (\<lambda>p. Responds (Some ''null'')) parseLiteral
      (interests (user connectedState)) (language (user connectedState))
      (preferredTone (user connectedState)) 3 = Inr JNull \<and>
   generateTweetIdeas (\<lambda>p. Responds (Some ''[1, 2]'')) parseLiteral
      (interests (user connectedState)) (language (user connectedState))
      (preferredTone (user connectedState)) 3 = Inr (JArray [JNumber 1, JNumber 2]) \<and>
   handleGenerate (\<lambda>p. Responds (Some ''null'')) parseLiteral (\<lambda>v. False) 1700000009000
      connectedState =
     HandlerRejects
       (connectedState\<lparr>isGenerating := True, generatedOptions := [],
          aiCalls := aiCalls connectedState @
            [ideasPrompt (interests (user connectedState)) (language (user connectedState))
               (preferredTone (user connectedState)) 3]\<rparr>) \<and>
   handleGenerate (\<lambda>p. Responds (Some ''[1, 2]'')) parseLiteral (\<lambda>v. False) 1700000009000
      connectedState =
     HandlerRejects
       (connectedState\<lparr>isGenerating := True, generatedOptions := [],
          aiCalls := aiCalls connectedState @
            [ideasPrompt (interests (user connectedState)) (language (user connectedState))
               (preferredTone (user connectedState)) 3]\<rparr>)"
proof -
  have topics: "interests (user connectedState) \<noteq> []"
    by (simp add: connectedState_user initialUser_def)
  have null: "generateTweetIdeas (\<lambda>p. Responds (Some ''null'')) parseLiteral
      (interests (user connectedState)) (language (user connectedState))
      (preferredTone (user connectedState)) 3 = Inr JNull"
    using topics by (simp add: generateTweetIdeas_def ideasTry_def parseLiteral_def)
  have numbers: "generateTweetIdeas (\<lambda>p. Responds (Some ''[1, 2]'')) parseLiteral
      (interests (user connectedState)) (language (user connectedState))
      (preferredTone (user connectedState)) 3 = Inr (JArray [JNumber 1, JNumber 2])"
    using topics by (simp add: generateTweetIdeas_def ideasTry_def parseLiteral_def)
  show ?thesis
    using topics by (simp add: null numbers handleGenerate_def resultsLookFailed_def)
qed

text \<open>
  Claim C10. \<open>generateAutoTweet\<close> is total and never raises: it always returns a string.
  With no topics that string is the fixed advisory sentence; when the request is rejected, or
  the response has no text or only white space, it is a sentence built from the picked topic.
  Hence the \<open>catch\<close> block of the interval callback is never entered: a resumed call never
  hands it a thrown value, and every cycle of an active timer reaches \<open>setPosts\<close>.
\<close>

theorem generateAutoTweet_total:
  "(\<exists>tweet. generateAutoTweet ai r ints lang tone = Inr tweet) \<and>
   generateAutoTweet ai r [] lang tone = Inr ''I need interests to generate a tweet!'' \<and>
   (ints \<noteq> [] \<and> ai (autoPrompt (pickInterest r ints) lang tone) = Rejects e \<longrightarrow>
      generateAutoTweet ai r ints lang tone =
        Inr (''Excited to learn more about '' @ pickInterest r ints @ ''! #learning'')) \<and>
   (ints \<noteq> [] \<and> ai (autoPrompt (pickInterest r ints) lang tone) = Responds None \<longrightarrow>
      generateAutoTweet ai r ints lang tone =
        Inr (''Checking out the latest in '' @ pickInterest r ints @ ''!'')) \<and>
   (ints \<noteq> [] \<and> ai (autoPrompt (pickInterest r ints) lang tone) = Responds (Some t) \<and>
      trim t = [] \<longrightarrow>
      generateAutoTweet ai r ints lang tone =
        Inr (''Checking out the latest in '' @ pickInterest r ints @ ''!'')) \<and>
   (\<forall>e'. autoTweetResume req outcome \<noteq> Inl e') \<and>
   (map_of (intervals s) h = Some u \<longrightarrow>
      length (posts (autoPilotCycle h r outcome t1 t2 t3 s)) = Suc (length (posts s)))"
proof -
  have cyc: "length (posts (autoPilotCycle h r outcome t1 t2 t3 s)) = Suc (length (posts s))"
    if active: "map_of (intervals s) h = Some u"
  proof (cases "autoTweetBegin r (interests u) (language u) (preferredTone u)")
    case (Returned tweet)
    with active show ?thesis
      by (simp add: autoPilotCycle_def intervalFires_def callbackSettled_def addNotification_def)
  next
    case (Awaiting topic prompt)
    obtain tweet where "autoTweetResume (Awaiting topic prompt) outcome = Inr tweet"
      using autoTweetResume_Inr by blast
    with active Awaiting show ?thesis
      by (simp add: autoPilotCycle_def intervalFires_def requestSettles_def
          callbackSettled_def addNotification_def nth_append)
  qed
  have "\<forall>e'. autoTweetResume req outcome \<noteq> Inl e'"
    using autoTweetResume_Inr [of req outcome] by auto
  moreover have "generateAutoTweet ai r [] lang tone = Inr ''I need interests to generate a tweet!''"
    by (simp add: generateAutoTweet_def autoTweetBegin_def)
  moreover have "ints \<noteq> [] \<and> ai (autoPrompt (pickInterest r ints) lang tone) = Rejects e \<longrightarrow>
      generateAutoTweet ai r ints lang tone =
        Inr (''Excited to learn more about '' @ pickInterest r ints @ ''! #learning'')"
    by (simp add: generateAutoTweet_def autoTweetBegin_def autoTweetTry_def Let_def)
  moreover have "ints \<noteq> [] \<and> ai (autoPrompt (pickInterest r ints) lang tone) = Responds None \<longrightarrow>
      generateAutoTweet ai r ints lang tone =
        Inr (''Checking out the latest in '' @ pickInterest r ints @ ''!'')"
    by (simp add: generateAutoTweet_def autoTweetBegin_def autoTweetTry_def Let_def)
  moreover have "ints \<noteq> [] \<and> ai (autoPrompt (pickInterest r ints) lang tone) = Responds (Some t) \<and>
      trim t = [] \<longrightarrow>
      generateAutoTweet ai r ints lang tone =
        Inr (''Checking out the latest in '' @ pickInterest r ints @ ''!'')"
    by (simp add: generateAutoTweet_def autoTweetBegin_def autoTweetTry_def Let_def)
  ultimately show ?thesis
    using generateAutoTweet_Inr [of ai r ints lang tone] cyc by blast
qed

theorem generateAutoTweet_total_witness:
  "generateAutoTweet (\<lambda>p. Rejects OtherValue) 0 [''AI''] ''English'' PROFESSIONAL =
     Inr ''Excited to learn more about AI! #learning'' \<and>
   generateAutoTweet (\<lambda>p. Responds (Some ''  '')) 0 [''AI''] ''English'' PROFESSIONAL =
     Inr ''Checking out the latest in AI!''"
  using generateAutoTweet_total [of "\<lambda>p. Rejects OtherValue" 0 "[''AI'']" "''English''"
      PROFESSIONAL OtherValue]
    generateAutoTweet_total [of "\<lambda>p. Responds (Some ''  '')" 0 "[''AI'']" "''English''"
      PROFESSIONAL _ "''  ''"]
  by (simp add: pickInterest_def trim_def isWhiteSpace_def)

section \<open>The timer invariant\<close>

lemma timerInv_initial: "timerInv initialState"
  by (simp add: timerInv_def initialState_def)

lemma timerInv_frame:
  "autoPilotIntervalRef s' = autoPilotIntervalRef s \<Longrightarrow> intervals s' = intervals s \<Longrightarrow>
   user s' = user s \<Longrightarrow> timerInv s' = timerInv s"
  by (auto simp: timerInv_def split: option.splits)

lemma cleanup_stops_timer:
  assumes "timerInv s" "autoPilotIntervalRef s' = autoPilotIntervalRef s" "intervals s' = intervals s"
  shows "intervals (autoPilotCleanup s') = []"
    and "autoPilotIntervalRef (autoPilotCleanup s') = autoPilotIntervalRef s"
    and "user (autoPilotCleanup s') = user s'"
  using assms
  by (auto simp: timerInv_def autoPilotCleanup_def clearInterval_def split: option.splits)

lemma timerInv_effect:
  assumes "intervals s = []"
  shows "timerInv (autoPilotEffect te s)"
  using assms
  by (auto simp: timerInv_def autoPilotEffect_def clearInterval_def setInterval_def
      addNotification_def split: option.splits)

lemma timerInv_rerun:
  assumes "timerInv s" "autoPilotIntervalRef s' = autoPilotIntervalRef s" "intervals s' = intervals s"
  shows "timerInv (autoPilotRerun te s')"
  unfolding autoPilotRerun_def
  by (rule timerInv_effect) (rule cleanup_stops_timer(1) [OF assms])

lemma callbackSettled_frame:
  "user (callbackSettled res t1 t2 t3 s) = user s"
  "intervals (callbackSettled res t1 t2 t3 s) = intervals s"
  "autoPilotIntervalRef (callbackSettled res t1 t2 t3 s) = autoPilotIntervalRef s"
  "inflight (callbackSettled res t1 t2 t3 s) = inflight s"
  "aiCalls (callbackSettled res t1 t2 t3 s) = aiCalls s"
  by (simp_all add: callbackSettled_def addNotification_def split: sum.splits)

lemma timerInv_callbackSettled: "timerInv (callbackSettled res t1 t2 t3 s) = timerInv s"
  by (rule timerInv_frame) (simp_all add: callbackSettled_frame)

lemma connected_again: "isConnected u \<Longrightarrow> u\<lparr>isConnected := True\<rparr> = u"
  by (cases u) simp

lemma timerInv_step: 
  assumes inv: "timerInv s"
  shows "timerInv (step e s)"
proof (cases e)
  case Connect
  have "timerInv (handleConnect s) = timerInv s"
    by (rule timerInv_frame) (simp_all add: handleConnect_def)
  with inv Connect show ?thesis by simp
next
  case (ConnectTimeout t1 ta tb tc te)
  show ?thesis
  proof (cases "isConnected (user s)")
    case True
    have "timerInv (connectTimeout t1 ta tb tc te s) = timerInv s"
      by (rule timerInv_frame) (simp_all add: connectTimeout_def addNotification_def True connected_again)
    with inv ConnectTimeout show ?thesis by simp
  next
    case False
    let ?s2 = "addNotification t1 ''Successfully connected to Twitter account @alex_dev'' Success
        (s\<lparr>user := (user s)\<lparr>isConnected := True\<rparr>, isConnecting := False\<rparr>)"
    have "intervals (autoPilotCleanup ?s2) = []"
      by (rule cleanup_stops_timer(1) [OF inv]) (simp_all add: addNotification_def)
    then have "intervals (initialDataEffect ta tb tc (autoPilotCleanup ?s2)) = []"
      by (simp add: initialDataEffect_def)
    then have "timerInv (autoPilotEffect te (initialDataEffect ta tb tc (autoPilotCleanup ?s2)))"
      by (rule timerInv_effect)
    with False ConnectTimeout show ?thesis by (simp add: connectTimeout_def)
  qed
next
  case (Generate ai parse coerce t1)
  have "timerInv (stateAfter (handleGenerate ai parse coerce t1 s)) = timerInv s"
    by (rule timerInv_frame)
      (simp_all add: handleGenerate_def addNotification_def Let_def
        split: sum.splits option.splits bool.splits)
  with inv Generate show ?thesis by simp
next
  case (Schedule c t1 t2 t3 t4)
  have "timerInv (handleSchedule c t1 t2 t3 t4 s) = timerInv s"
    by (rule timerInv_frame) (simp_all add: handleSchedule_def addNotification_def)
  with inv Schedule show ?thesis by simp
next
  case (PostNow c t1 t2 t3)
  have "timerInv (handlePostNow c t1 t2 t3 s) = timerInv s"
    by (rule timerInv_frame) (simp_all add: handlePostNow_def addNotification_def)
  with inv PostNow show ?thesis by simp
next
  case (DeletePost i t1)
  have "timerInv (handleDeletePost i t1 s) = timerInv s"
    by (rule timerInv_frame) (simp_all add: handleDeletePost_def addNotification_def)
  with inv DeletePost show ?thesis by simp
next
  case (CloseNotification i)
  have "timerInv (removeNotification i s) = timerInv s"
    by (rule timerInv_frame) (simp_all add: removeNotification_def)
  with inv CloseNotification show ?thesis by simp
next
  case (TypeInterest v)
  have "timerInv (s\<lparr>newInterest := v\<rparr>) = timerInv s"
    by (rule timerInv_frame) simp_all
  with inv TypeInterest show ?thesis by simp
next
  case (AddInterest t1 te)
  show ?thesis
    by (simp add: AddInterest handleAddInterest_def inv timerInv_rerun [OF inv] addNotification_def)
next
  case (AddSuggestion v t1 te)
  show ?thesis
    by (simp add: AddSuggestion addSuggestion_def inv timerInv_rerun [OF inv] addNotification_def)
next
  case (RemoveInterest v te)
  show ?thesis
    unfolding RemoveInterest step.simps removeInterest_def
    by (rule timerInv_rerun [OF inv]) simp_all
next
  case (SetLanguage v te)
  show ?thesis
  proof (cases "v = language (user s)")
    case True
    have "timerInv (setLanguage v te s) = timerInv s"
      by (rule timerInv_frame) (simp_all add: setLanguage_def True)
    with inv SetLanguage show ?thesis by simp
  next
    case False
    then show ?thesis
      by (simp add: SetLanguage setLanguage_def timerInv_rerun [OF inv])
  qed
next
  case (SetTone v te)
  show ?thesis
  proof (cases "v = preferredTone (user s)")
    case True
    have "timerInv (setPreferredTone v te s) = timerInv s"
      by (rule timerInv_frame) (simp_all add: setPreferredTone_def True)
    with inv SetTone show ?thesis by simp
  next
    case False
    then show ?thesis
      by (simp add: SetTone setPreferredTone_def timerInv_rerun [OF inv])
  qed
next
  case (ToggleAutoPilot te)
  show ?thesis
    unfolding ToggleAutoPilot step.simps toggleAutoPilot_def
    by (rule timerInv_rerun [OF inv]) simp_all
next
  case (IntervalFires h r t1 t2 t3)
  have "timerInv (intervalFires h r t1 t2 t3 s) = timerInv s"
    by (rule timerInv_frame)
      (simp_all add: intervalFires_def callbackSettled_frame split: option.splits auto_request.splits)
  with inv IntervalFires show ?thesis by simp
next
  case (RequestSettles i outcome t1 t2 t3)
  have "timerInv (requestSettles i outcome t1 t2 t3 s) = timerInv s"
    by (rule timerInv_frame) (simp_all add: requestSettles_def callbackSettled_frame)
  with inv RequestSettles show ?thesis by simp
qed

lemma timerInv_run: "timerInv s \<Longrightarrow> timerInv (run es s)"
  unfolding run_def by (induction es arbitrary: s) (simp_all add: timerInv_step)

section \<open>The generation cycle\<close>

lemmas run_defs = run_def handleConnect_def connectTimeout_def addNotification_def
  autoPilotEffect_def autoPilotCleanup_def autoPilotRerun_def initialDataEffect_def
  toggleAutoPilot_def setInterval_def clearInterval_def removeInterest_def

lemma armedState_fields:
  "intervals armedState = [(1, user armedState)]"
  "autoPilotIntervalRef armedState = Some 1"
  "user armedState = initialUser\<lparr>isConnected := True, autoPilot := True\<rparr>"
  "inflight armedState = []"
  "aiCalls armedState = []"
  by (simp_all add: armedState_def connectedState_def initialState_def initialUser_def run_defs)

lemma noTopicsArmed_fields:
  "intervals noTopicsArmed = [(1, user noTopicsArmed)]"
  "autoPilotIntervalRef noTopicsArmed = Some 1"
  "interests (user noTopicsArmed) = []"
  "inflight noTopicsArmed = []"
  by (simp_all add: noTopicsArmed_def noTopicsState_def connectedState_def initialState_def
      initialUser_def run_defs)

lemma cycle_fields:
  assumes active: "map_of (intervals s) h = Some u"
  shows "intervals (autoPilotCycle h r outcome t1 t2 t3 s) = intervals s"
    and "autoPilotIntervalRef (autoPilotCycle h r outcome t1 t2 t3 s) = autoPilotIntervalRef s"
    and "user (autoPilotCycle h r outcome t1 t2 t3 s) = user s"
    and "inflight (autoPilotCycle h r outcome t1 t2 t3 s) = inflight s"
    and "aiCalls (autoPilotCycle h r outcome t1 t2 t3 s) =
           aiCalls s @ promptsSent (autoTweetBegin r (interests u) (language u) (preferredTone u))"
  using active
  by (simp_all add: autoPilotCycle_def intervalFires_def requestSettles_def callbackSettled_frame
      nth_append split: auto_request.splits)

lemma cycle_settled:
  assumes active: "map_of (intervals s) h = Some u"
  shows "autoPilotCycle h r outcome t1 t2 t3 s =
           callbackSettled
             (autoTweetResume (autoTweetBegin r (interests u) (language u) (preferredTone u)) outcome)
             t1 t2 t3
             (s\<lparr>aiCalls := aiCalls s @
                 promptsSent (autoTweetBegin r (interests u) (language u) (preferredTone u))\<rparr>)"
proof (cases "autoTweetBegin r (interests u) (language u) (preferredTone u)")
  case (Returned tweet)
  with active show ?thesis
    by (simp add: autoPilotCycle_def intervalFires_def callbackSettled_frame)
next
  case (Awaiting topic prompt)
  with active show ?thesis
    by (simp add: autoPilotCycle_def intervalFires_def requestSettles_def nth_append)
qed

lemma callbackSettled_posts:
  "posts (callbackSettled (Inr tweet) t1 t2 t3 s) =
     \<lparr>tweet_id = toString t1, content = tweet, status = POSTED, scheduledTime = None,
      createdAt = t2, likes = Some 0, retweets = Some 0\<rparr> # posts s"
  "notifications (callbackSettled (Inr tweet) t1 t2 t3 s) =
     notifications s @
       [\<lparr>notif_id = toString t3, message = ''Auto-Pilot just posted a new tweet!'',
         notif_type = Success\<rparr>]"
  by (simp_all add: callbackSettled_def addNotification_def)

lemma cycle_posts:
  assumes active: "map_of (intervals s) h = Some u"
    and result: "autoTweetResume (autoTweetBegin r (interests u) (language u) (preferredTone u)) outcome
                  = Inr tweet"
  shows "posts (autoPilotCycle h r outcome t1 t2 t3 s) =
     \<lparr>tweet_id = toString t1, content = tweet, status = POSTED, scheduledTime = None,
      createdAt = t2, likes = Some 0, retweets = Some 0\<rparr> # posts s"
   and "notifications (autoPilotCycle h r outcome t1 t2 t3 s) =
     notifications s @
       [\<lparr>notif_id = toString t3, message = ''Auto-Pilot just posted a new tweet!'',
         notif_type = Success\<rparr>]"
  by (simp_all add: cycle_settled [OF active] result callbackSettled_posts)

text \<open>
  Claim C6. When the timer of an armed loop fires and the collaborator answers with text that is
  not blank, the cycle creates exactly one post: its content is the trimmed text, its status
  is \<open>POSTED\<close>, both counters are 0, \<open>createdAt\<close> is the clock reading taken in the
  cycle, and it is put at the front of the queue. The number of posted posts grows by one and
  one success notification is appended.
\<close>

theorem successful_cycle_posts_once:
  assumes active: "map_of (intervals s) h = Some u"
    and topics: "interests u \<noteq> []"
    and success: "outcome = Responds (Some t)" "trim t \<noteq> []"
  shows "posts (autoPilotCycle h r outcome t1 t2 t3 s) =
           \<lparr>tweet_id = toString t1, content = trim t, status = POSTED, scheduledTime = None,
            createdAt = t2, likes = Some 0, retweets = Some 0\<rparr> # posts s \<and>
         length (filter (\<lambda>p. status p = POSTED) (posts (autoPilotCycle h r outcome t1 t2 t3 s))) =
           Suc (length (filter (\<lambda>p. status p = POSTED) (posts s))) \<and>
         notifications (autoPilotCycle h r outcome t1 t2 t3 s) =
           notifications s @
             [\<lparr>notif_id = toString t3, message = ''Auto-Pilot just posted a new tweet!'',
               notif_type = Success\<rparr>]"
proof -
  have "autoTweetResume (autoTweetBegin r (interests u) (language u) (preferredTone u)) outcome
          = Inr (trim t)"
    using topics success by (simp add: autoTweetBegin_def autoTweetTry_def Let_def)
  from cycle_posts [OF active this] show ?thesis by simp
qed

theorem successful_cycle_posts_once_witness:
  "posts (autoPilotCycle 1 (1/2) (Responds (Some ''Exploring AI tools today. #AI''))
            1700000015000 1700000015001 1700000015002 armedState) =
     \<lparr>tweet_id = toString 1700000015000, content = ''Exploring AI tools today. #AI'',
      status = POSTED, scheduledTime = None, createdAt = 1700000015001,
      likes = Some 0, retweets = Some 0\<rparr> # posts armedState"
  using successful_cycle_posts_once [of armedState 1 "user armedState"
      "Responds (Some ''Exploring AI tools today. #AI'')" "''Exploring AI tools today. #AI''"
      "1/2" 1700000015000 1700000015001 1700000015002]
  by (simp add: armedState_fields initialUser_def trim_def isWhiteSpace_def)

text \<open>
  Claim C1, as the code has it. When the request of a cycle fails (it is rejected, or the
  response has no text or only white space), \<open>generateAutoTweet\<close> puts a sentence about
  the picked topic in the place of the text, and the cycle goes on as after a success: it
  puts one \<open>POSTED\<close> post with that sentence at the front of the queue and appends the
  success notification; no error notification is made. The ref and the timer are as before,
  so the loop stays armed.
\<close>

theorem failing_cycle_posts_fallback:
  assumes active: "map_of (intervals s) h = Some u"
    and topics: "interests u \<noteq> []"
    and failure: "outcome = Rejects e \<or> outcome = Responds None \<or>
                  (outcome = Responds (Some t) \<and> trim t = [])"
  shows "posts (autoPilotCycle h r outcome t1 t2 t3 s) =
           \<lparr>tweet_id = toString t1,
            content =
              (case outcome of
                 Rejects x \<Rightarrow>
                   ''Excited to learn more about '' @ pickInterest r (interests u) @ ''! #learning''
               | Responds x \<Rightarrow>
                   ''Checking out the latest in '' @ pickInterest r (interests u) @ ''!''),
            status = POSTED, scheduledTime = None, createdAt = t2,
            likes = Some 0, retweets = Some 0\<rparr> # posts s \<and>
         notifications (autoPilotCycle h r outcome t1 t2 t3 s) =
           notifications s @
             [\<lparr>notif_id = toString t3, message = ''Auto-Pilot just posted a new tweet!'',
               notif_type = Success\<rparr>] \<and>
         autoPilotIntervalRef (autoPilotCycle h r outcome t1 t2 t3 s) = autoPilotIntervalRef s \<and>
         intervals (autoPilotCycle h r outcome t1 t2 t3 s) = intervals s \<and>
         map_of (intervals (autoPilotCycle h r outcome t1 t2 t3 s)) h = Some u"
proof -
  have "autoTweetResume (autoTweetBegin r (interests u) (language u) (preferredTone u)) outcome =
          Inr (case outcome of
                 Rejects x \<Rightarrow>
                   ''Excited to learn more about '' @ pickInterest r (interests u) @ ''! #learning''
               | Responds x \<Rightarrow>
                   ''Checking out the latest in '' @ pickInterest r (interests u) @ ''!'')"
    using topics failure by (auto simp: autoTweetBegin_def autoTweetTry_def Let_def)
  from cycle_posts [OF active this] cycle_fields [OF active] active show ?thesis by simp
qed

theorem failing_cycle_posts_fallback_witness:
  "posts (autoPilotCycle 1 0 (Responds (Some ''   ''))
            1700000015000 1700000015001 1700000015002 armedState) =
     \<lparr>tweet_id = toString 1700000015000, content = ''Checking out the latest in React!'',
      status = POSTED, scheduledTime = None, createdAt = 1700000015001,
      likes = Some 0, retweets = Some 0\<rparr> # posts armedState \<and>
   autoPilotIntervalRef (autoPilotCycle 1 0 (Responds (Some ''   ''))
            1700000015000 1700000015001 1700000015002 armedState) = Some 1"
  using failing_cycle_posts_fallback [of armedState 1 "user armedState"
      "Responds (Some ''   '')" _ "''   ''" 0 1700000015000 1700000015001 1700000015002]
  by (simp add: armedState_fields initialUser_def trim_def isWhiteSpace_def pickInterest_def)

text \<open>
  The claim as stated (a failing cycle leaves the queue unchanged and notifies nobody) is false
  for the armed application when the request is rejected.
\<close>

theorem failing_cycle_counterexample:
  "posts (autoPilotCycle 1 0 (Rejects (ErrorObject ''fetch failed''))
            1700000015000 1700000015001 1700000015002 armedState) =
     \<lparr>tweet_id = toString 1700000015000,
      content = ''Excited to learn more about React! #learning'',
      status = POSTED, scheduledTime = None, createdAt = 1700000015001,
      likes = Some 0, retweets = Some 0\<rparr> # posts armedState \<and>
   posts (autoPilotCycle 1 0 (Rejects (ErrorObject ''fetch failed''))
            1700000015000 1700000015001 1700000015002 armedState) \<noteq> posts armedState \<and>
   notifications (autoPilotCycle 1 0 (Rejects (ErrorObject ''fetch failed''))
            1700000015000 1700000015001 1700000015002 armedState) =
     notifications armedState @
       [\<lparr>notif_id = toString 1700000015002, message = ''Auto-Pilot just posted a new tweet!'',
         notif_type = Success\<rparr>]"
proof -
  have active: "map_of (intervals armedState) 1 = Some (user armedState)"
    by (simp add: armedState_fields)
  have "autoTweetResume
          (autoTweetBegin 0 (interests (user armedState)) (language (user armedState))
             (preferredTone (user armedState)))
          (Rejects (ErrorObject ''fetch failed'')) =
        Inr ''Excited to learn more about React! #learning''"
    by (simp add: armedState_fields initialUser_def autoTweetBegin_def autoTweetTry_def
        pickInterest_def Let_def)
  from cycle_posts [OF active this] show ?thesis by simp
qed

lemma empty_topics_cycle:
  assumes active: "map_of (intervals s) h = Some u" and none: "interests u = []"
  shows "aiCalls (autoPilotCycle h r outcome t1 t2 t3 s) = aiCalls s"
    and "posts (autoPilotCycle h r outcome t1 t2 t3 s) =
     \<lparr>tweet_id = toString t1, content = ''I need interests to generate a tweet!'',
      status = POSTED, scheduledTime = None, createdAt = t2,
      likes = Some 0, retweets = Some 0\<rparr> # posts s"
proof -
  have returned: "autoTweetBegin r (interests u) (language u) (preferredTone u) =
      Returned ''I need interests to generate a tweet!''"
    by (simp add: none autoTweetBegin_def)
  show "aiCalls (autoPilotCycle h r outcome t1 t2 t3 s) = aiCalls s"
    by (simp add: cycle_fields(5) [OF active] returned)
  show "posts (autoPilotCycle h r outcome t1 t2 t3 s) =
     \<lparr>tweet_id = toString t1, content = ''I need interests to generate a tweet!'',
      status = POSTED, scheduledTime = None, createdAt = t2,
      likes = Some 0, retweets = Some 0\<rparr> # posts s"
    by (rule cycle_posts(1) [OF active]) (simp add: returned)
qed

text \<open>
  Claim C2, at an input where the code departs from it. With auto-pilot armed after every
  topic was removed, a cycle sends nothing to the collaborator, as claimed, but the queue
  does not stay as it was: the advisory sentence that \<open>generateAutoTweet\<close> returns is
  published as a post.
\<close>

theorem empty_topics_cycle_posts_advisory:
  "interests (user noTopicsArmed) = [] \<and>
   aiCalls (autoPilotCycle 1 0 (Responds None)
            1700000015000 1700000015001 1700000015002 noTopicsArmed) = aiCalls noTopicsArmed \<and>
   posts (autoPilotCycle 1 0 (Responds None)
            1700000015000 1700000015001 1700000015002 noTopicsArmed) =
     \<lparr>tweet_id = toString 1700000015000, content = ''I need interests to generate a tweet!'',
      status = POSTED, scheduledTime = None, createdAt = 1700000015001,
      likes = Some 0, retweets = Some 0\<rparr> # posts noTopicsArmed"
proof -
  have active: "map_of (intervals noTopicsArmed) 1 = Some (user noTopicsArmed)"
    by (simp add: noTopicsArmed_fields)
  have returned: "autoTweetBegin 0 (interests (user noTopicsArmed)) (language (user noTopicsArmed))
             (preferredTone (user noTopicsArmed)) = Returned ''I need interests to generate a tweet!''"
    by (simp add: noTopicsArmed_fields autoTweetBegin_def)
  then have "autoTweetResume
          (autoTweetBegin 0 (interests (user noTopicsArmed)) (language (user noTopicsArmed))
             (preferredTone (user noTopicsArmed)))
          (Responds None) = Inr ''I need interests to generate a tweet!''"
    by simp
  from cycle_posts(1) [OF active this] cycle_fields(5) [OF active, of 0] returned
  show ?thesis by (simp add: noTopicsArmed_fields)
qed

section \<open>Switching auto-pilot on and off\<close>

lemma rerun_frame:
  "posts (autoPilotRerun te s) = posts s"
  "inflight (autoPilotRerun te s) = inflight s"
  "aiCalls (autoPilotRerun te s) = aiCalls s"
  "user (autoPilotRerun te s) = user s"
  by (simp_all add: autoPilotRerun_def autoPilotEffect_def autoPilotCleanup_def clearInterval_def
      setInterval_def addNotification_def split: option.splits)

lemma rerun_off:
  assumes inv: "timerInv s" "autoPilotIntervalRef s' = autoPilotIntervalRef s"
      "intervals s' = intervals s"
    and off: "\<not> autoPilot (user s')"
  shows "autoPilotIntervalRef (autoPilotRerun te s') = None"
    and "intervals (autoPilotRerun te s') = []"
  using cleanup_stops_timer [OF inv] off
  by (simp_all add: autoPilotRerun_def autoPilotEffect_def clearInterval_def addNotification_def
      split: option.splits)

lemma no_timer_no_tick: "intervals s = [] \<Longrightarrow> intervalFires h r t1 t2 t3 s = s"
  by (simp add: intervalFires_def)

text \<open>
  Claim C3, as the code has it. Switching auto-pilot off empties the ref and clears the timer, so
  no further cycle starts. A request that was sent before is not forgotten: when it settles,
  its callback puts the post at the front of the queue whatever the loop has become, since
  the callback never looks at the ref or at \<open>user.autoPilot\<close>.
\<close>

theorem stopped_loop_still_takes_result:
  assumes inv: "timerInv s" and on: "autoPilot (user s)"
    and waiting: "i < length (inflight s)"
  shows "autoPilotIntervalRef (toggleAutoPilot te s) = None \<and>
         intervals (toggleAutoPilot te s) = [] \<and>
         intervalFires h r t1 t2 t3 (toggleAutoPilot te s) = toggleAutoPilot te s \<and>
         inflight (toggleAutoPilot te s) = inflight s \<and>
         (\<exists>tweet. posts (requestSettles i outcome t1 t2 t3 (toggleAutoPilot te s)) =
            \<lparr>tweet_id = toString t1, content = tweet, status = POSTED, scheduledTime = None,
             createdAt = t2, likes = Some 0, retweets = Some 0\<rparr> # posts s) \<and>
         notifications (requestSettles i outcome t1 t2 t3 (toggleAutoPilot te s)) =
           notifications (toggleAutoPilot te s) @
             [\<lparr>notif_id = toString t3, message = ''Auto-Pilot just posted a new tweet!'',
               notif_type = Success\<rparr>]"
proof -
  let ?s' = "toggleAutoPilot te s"
  have off: "autoPilotIntervalRef ?s' = None" "intervals ?s' = []"
    unfolding toggleAutoPilot_def by (rule rerun_off [OF inv]; simp add: on)+
  have same: "inflight ?s' = inflight s" "posts ?s' = posts s"
    by (simp_all add: toggleAutoPilot_def rerun_frame)
  obtain tweet where "autoTweetResume (inflight s ! i) outcome = Inr tweet"
    using autoTweetResume_Inr by blast
  then have "posts (requestSettles i outcome t1 t2 t3 ?s') =
            \<lparr>tweet_id = toString t1, content = tweet, status = POSTED, scheduledTime = None,
             createdAt = t2, likes = Some 0, retweets = Some 0\<rparr> # posts s"
    using waiting by (simp add: requestSettles_def same callbackSettled_posts)
  moreover have "notifications (requestSettles i outcome t1 t2 t3 ?s') =
           notifications ?s' @
             [\<lparr>notif_id = toString t3, message = ''Auto-Pilot just posted a new tweet!'',
               notif_type = Success\<rparr>]"
    using waiting \<open>autoTweetResume (inflight s ! i) outcome = Inr tweet\<close>
    by (simp add: requestSettles_def same callbackSettled_posts)
  ultimately show ?thesis
    using off same no_timer_no_tick [OF off(2)] by simp
qed

lemma waitingState_fields:
  "autoPilotIntervalRef waitingState = Some 1"
  "intervals waitingState = [(1, user waitingState)]"
  "user waitingState = initialUser\<lparr>isConnected := True, autoPilot := True\<rparr>"
  "inflight waitingState = [Awaiting ''React'' (autoPrompt ''React'' ''English'' PROFESSIONAL)]"
  "posts waitingState = posts armedState"
  by (simp_all add: waitingState_def run_def intervalFires_def armedState_fields initialUser_def
      autoTweetBegin_def pickInterest_def Let_def)

theorem stopped_loop_still_takes_result_witness:
  "timerInv waitingState \<and> autoPilot (user waitingState) \<and> 0 < length (inflight waitingState) \<and>
   autoPilotIntervalRef (toggleAutoPilot 1700000016000 waitingState) = None \<and>
   intervals (toggleAutoPilot 1700000016000 waitingState) = [] \<and>
   length (posts (requestSettles 0 (Rejects OtherValue) 1700000017000 1700000017001 1700000017002
        (toggleAutoPilot 1700000016000 waitingState))) = Suc (length (posts waitingState))"
proof -
  have inv: "timerInv waitingState"
    by (simp add: timerInv_def waitingState_fields initialUser_def)
  have on: "autoPilot (user waitingState)"
    by (simp add: waitingState_fields initialUser_def)
  have waiting: "0 < length (inflight waitingState)"
    by (simp add: waitingState_fields)
  from stopped_loop_still_takes_result [OF inv on waiting, of 1700000016000 1 0 1700000017000
      1700000017001 1700000017002 "Rejects OtherValue"] inv on waiting
  show ?thesis by auto
qed

lemma stoppedWhileWaiting_fields:
  "autoPilotIntervalRef stoppedWhileWaiting = None"
  "intervals stoppedWhileWaiting = []"
  "autoPilot (user stoppedWhileWaiting) = False"
  "inflight stoppedWhileWaiting = [Awaiting ''React'' (autoPrompt ''React'' ''English'' PROFESSIONAL)]"
  by (simp_all add: stoppedWhileWaiting_def waitingState_fields initialUser_def run_defs)

text \<open>
  The claim as stated (the result of a request is dropped once the loop is idle) is false: the
  timer fires, auto-pilot is switched off while the request waits, and the settled request
  still adds its post.
\<close>

theorem late_result_counterexample:
  "autoPilotIntervalRef stoppedWhileWaiting = None \<and>
   intervals stoppedWhileWaiting = [] \<and>
   \<not> autoPilot (user stoppedWhileWaiting) \<and>
   posts (requestSettles 0 (Responds (Some ''Shipping beats perfect. #React''))
            1700000017000 1700000017001 1700000017002 stoppedWhileWaiting) =
     \<lparr>tweet_id = toString 1700000017000, content = ''Shipping beats perfect. #React'',
      status = POSTED, scheduledTime = None, createdAt = 1700000017001,
      likes = Some 0, retweets = Some 0\<rparr> # posts stoppedWhileWaiting \<and>
   posts (requestSettles 0 (Responds (Some ''Shipping beats perfect. #React''))
            1700000017000 1700000017001 1700000017002 stoppedWhileWaiting) \<noteq>
     posts stoppedWhileWaiting"
  by (simp add: stoppedWhileWaiting_fields requestSettles_def callbackSettled_posts
      autoTweetTry_def trim_def isWhiteSpace_def)

section \<open>What every run keeps\<close>

lemma at_most_one_timer: "length (intervals (run es initialState)) \<le> 1"
  using timerInv_run [OF timerInv_initial, of es]
  by (auto simp: timerInv_def split: option.splits)

lemma timer_reads_current_user:
  assumes "map_of (intervals (run es initialState)) h = Some u"
  shows "u = user (run es initialState)"
  using timerInv_run [OF timerInv_initial, of es] assms
  by (auto simp: timerInv_def split: option.splits if_splits)

lemma effect_while_armed:
  assumes "autoPilotIntervalRef s = Some h" "autoPilot (user s)" "isConnected (user s)"
  shows "autoPilotEffect te s = s"
  using assms by (simp add: autoPilotEffect_def)

lemma cleanup_frame:
  "notifications (autoPilotCleanup s) = notifications s"
  "autoPilotIntervalRef (autoPilotCleanup s) = autoPilotIntervalRef s"
  "user (autoPilotCleanup s) = user s"
  by (simp_all add: autoPilotCleanup_def clearInterval_def split: option.splits)

lemma rerun_while_armed:
  assumes inv: "timerInv s" "autoPilotIntervalRef s' = autoPilotIntervalRef s"
      "intervals s' = intervals s"
    and armed: "autoPilotIntervalRef s = Some h"
    and on: "autoPilot (user s')" "isConnected (user s')"
  shows "intervals (autoPilotRerun te s') = []"
    and "autoPilotIntervalRef (autoPilotRerun te s') = Some h"
    and "notifications (autoPilotRerun te s') = notifications s'"
  using cleanup_stops_timer(1) [OF inv] armed on inv(2)
  by (simp_all add: autoPilotRerun_def autoPilotEffect_def cleanup_frame)

lemma armedState_inv: "timerInv armedState"
  by (simp add: timerInv_def armedState_fields initialUser_def)

text \<open>
  Claim C4, at an input where the code departs from it. The language is edited while
  auto-pilot is on: the cleanup clears the timer and leaves its handle in the ref, the body
  of the effect finds the ref set and starts no timer, and from then on no tick fires
  although auto-pilot is on and the account connected.
\<close>

theorem language_change_stops_ticks:
  "autoPilot (user languageChanged) \<and> isConnected (user languageChanged) \<and>
   language (user languageChanged) = ''French'' \<and>
   autoPilotIntervalRef languageChanged = Some 1 \<and>
   intervals armedState = [(1, user armedState)] \<and>
   intervals languageChanged = [] \<and>
   (\<forall>h r t1 t2 t3. intervalFires h r t1 t2 t3 languageChanged = languageChanged)"
proof -
  let ?s' = "armedState\<lparr>user := (user armedState)\<lparr>language := ''French''\<rparr>\<rparr>"
  have eq: "languageChanged = autoPilotRerun 1700000008000 ?s'"
    by (simp add: languageChanged_def run_def setLanguage_def armedState_fields initialUser_def)
  have on: "autoPilot (user ?s')" "isConnected (user ?s')"
    by (simp_all add: armedState_fields initialUser_def)
  have "intervals languageChanged = []" "autoPilotIntervalRef languageChanged = Some 1"
    unfolding eq
    by (rule rerun_while_armed [OF armedState_inv _ _ _ on]; simp add: armedState_fields)+
  moreover have "user languageChanged = user ?s'"
    by (simp add: eq rerun_frame)
  ultimately show ?thesis
    by (simp add: no_timer_no_tick armedState_fields initialUser_def)
qed

text \<open>
  Claim C5, at an input where the code departs from it. The tone is changed while auto-pilot
  is on, so the supervision logic runs again with a timer active: no second timer is made
  and no second notification, as claimed, but of the one cycle that was active none is left.
\<close>

theorem rerun_while_armed_leaves_no_timer:
  "intervals armedState = [(1, user armedState)] \<and>
   autoPilot (user toneChanged) \<and> isConnected (user toneChanged) \<and>
   autoPilotIntervalRef toneChanged = Some 1 \<and>
   notifications toneChanged = notifications armedState \<and>
   length (filter (\<lambda>n. message n = ''Auto-Pilot engaged. AI will post periodically.'')
             (notifications toneChanged)) = 1 \<and>
   intervals toneChanged = []"
proof -
  let ?s' = "armedState\<lparr>user := (user armedState)\<lparr>preferredTone := CASUAL\<rparr>\<rparr>"
  have eq: "toneChanged = autoPilotRerun 1700000008000 ?s'"
    by (simp add: toneChanged_def run_def setPreferredTone_def armedState_fields initialUser_def)
  have on: "autoPilot (user ?s')" "isConnected (user ?s')"
    by (simp_all add: armedState_fields initialUser_def)
  have "intervals toneChanged = []" "autoPilotIntervalRef toneChanged = Some 1"
    "notifications toneChanged = notifications ?s'"
    unfolding eq
    by (rule rerun_while_armed [OF armedState_inv _ _ _ on]; simp add: armedState_fields)+
  moreover have "user toneChanged = user ?s'"
    by (simp add: eq rerun_frame)
  moreover have "notifications armedState =
      [\<lparr>notif_id = toString 1700000001500,
        message = ''Successfully connected to Twitter account @alex_dev'', notif_type = Success\<rparr>,
       \<lparr>notif_id = toString 1700000005000,
        message = ''Auto-Pilot engaged. AI will post periodically.'', notif_type = Success\<rparr>]"
    by (simp add: armedState_def connectedState_def initialState_def initialUser_def run_defs)
  ultimately show ?thesis
    by (simp add: armedState_fields initialUser_def)
qed

text \<open>
  Claim C7. From an idle loop on a connected account, switching auto-pilot on and off again
  with no tick in between leaves the queue as it was, sends nothing to the collaborator and
  appends exactly two notifications, the engaged one and then the disengaged one; the loop
  is idle again. Running the supervision logic on an idle loop with auto-pilot off changes
  nothing, before as well as after.
\<close>

theorem on_then_off_before_tick:
  assumes idle: "autoPilotIntervalRef s = None" "intervals s = []"
    and connected: "isConnected (user s)" and off: "\<not> autoPilot (user s)"
  shows "posts (run [ToggleAutoPilot ta, ToggleAutoPilot tb] s) = posts s \<and>
         notifications (run [ToggleAutoPilot ta, ToggleAutoPilot tb] s) =
           notifications s @
             [\<lparr>notif_id = toString ta, message = ''Auto-Pilot engaged. AI will post periodically.'',
               notif_type = Success\<rparr>,
              \<lparr>notif_id = toString tb, message = ''Auto-Pilot disengaged.'', notif_type = Info\<rparr>] \<and>
         autoPilotIntervalRef (run [ToggleAutoPilot ta, ToggleAutoPilot tb] s) = None \<and>
         intervals (run [ToggleAutoPilot ta, ToggleAutoPilot tb] s) = [] \<and>
         aiCalls (run [ToggleAutoPilot ta, ToggleAutoPilot tb] s) = aiCalls s \<and>
         autoPilotRerun tc (run [ToggleAutoPilot ta, ToggleAutoPilot tb] s) =
           run [ToggleAutoPilot ta, ToggleAutoPilot tb] s \<and>
         autoPilotRerun tc s = s"
  using idle connected off
  by (simp add: run_defs)

theorem on_then_off_before_tick_witness:
  "notifications (run [ToggleAutoPilot 1700000005000, ToggleAutoPilot 1700000006000] connectedState) =
     notifications connectedState @
       [\<lparr>notif_id = toString 1700000005000,
         message = ''Auto-Pilot engaged. AI will post periodically.'', notif_type = Success\<rparr>,
        \<lparr>notif_id = toString 1700000006000, message = ''Auto-Pilot disengaged.'',
         notif_type = Info\<rparr>] \<and>
   posts (run [ToggleAutoPilot 1700000005000, ToggleAutoPilot 1700000006000] connectedState) =
     posts connectedState"
proof -
  have "autoPilotIntervalRef connectedState = None" "intervals connectedState = []"
    "isConnected (user connectedState)" "\<not> autoPilot (user connectedState)"
    by (simp_all add: connectedState_def initialState_def initialUser_def run_defs)
  from on_then_off_before_tick [OF this, of 1700000005000 1700000006000] show ?thesis by simp
qed

section \<open>Identifiers\<close>

text \<open>Different integers have different decimal renderings.\<close>

lemma of_char_digitChar: "d < 10 \<Longrightarrow> of_char (digitChar d) = 48 + d"
  by (simp add: digitChar_def)

lemma natString_not_empty: "natString n \<noteq> []"
  by (subst natString.simps) simp

lemma digitChar_not_minus: "d < 10 \<Longrightarrow> digitChar d \<noteq> CHR ''-''"
proof
  assume "d < 10" "digitChar d = CHR ''-''"
  then have "of_char (digitChar d) = (of_char (CHR ''-'') :: nat)" by simp
  with \<open>d < 10\<close> show False by (simp add: of_char_digitChar)
qed

lemma hd_natString: "hd (natString n) \<noteq> CHR ''-''"
proof (induction n rule: natString.induct)
  case (1 n)
  show ?case
  proof (cases "n < 10")
    case True
    then show ?thesis by (subst natString.simps) (simp add: digitChar_not_minus)
  next
    case False
    with 1 show ?thesis
      by (subst natString.simps) (simp add: natString_not_empty)
  qed
qed

lemma natString_inj: "natString a = natString b \<Longrightarrow> a = b"
proof (induction a arbitrary: b rule: natString.induct)
  case (1 a)
  show ?case
  proof (cases "a < 10")
    case True
    have la: "natString a = [digitChar a]" using True by (subst natString.simps) simp
    show ?thesis
    proof (cases "b < 10")
      case b: True
      then have "natString b = [digitChar b]" by (subst natString.simps) simp
      with la 1(2) have "digitChar a = digitChar b" by simp
      then have "(of_char (digitChar a) :: nat) = of_char (digitChar b)" by simp
      with True b show ?thesis by (simp add: of_char_digitChar)
    next
      case b: False
      then have "natString b = natString (b div 10) @ [digitChar (b mod 10)]"
        by (subst natString.simps) simp
      with la 1(2) have "natString (b div 10) = []" by simp
      then show ?thesis by (simp add: natString_not_empty)
    qed
  next
    case False
    have la: "natString a = natString (a div 10) @ [digitChar (a mod 10)]"
      using False by (subst natString.simps) simp
    show ?thesis
    proof (cases "b < 10")
      case b: True
      then have "natString b = [digitChar b]" by (subst natString.simps) simp
      with la 1(2) have "natString (a div 10) = []" by simp
      then show ?thesis by (simp add: natString_not_empty)
    next
      case b: False
      then have "natString b = natString (b div 10) @ [digitChar (b mod 10)]"
        by (subst natString.simps) simp
      with la 1(2) have eq: "natString (a div 10) = natString (b div 10)"
        "digitChar (a mod 10) = digitChar (b mod 10)" by simp_all
      from eq(2) have "(of_char (digitChar (a mod 10)) :: nat) = of_char (digitChar (b mod 10))"
        by simp
      then have m: "a mod 10 = b mod 10" by (simp add: of_char_digitChar)
      from 1(1) [OF False eq(1)] have d: "a div 10 = b div 10" .
      have "a = 10 * (a div 10) + a mod 10" by simp
      also have "\<dots> = 10 * (b div 10) + b mod 10" using m d by simp
      also have "\<dots> = b" by simp
      finally show ?thesis .
    qed
  qed
qed

lemma toString_inj: "toString a = toString b \<longleftrightarrow> a = b"
proof
  assume eq: "toString a = toString b"
  show "a = b"
  proof (cases "a < 0")
    case True
    show ?thesis
    proof (cases "b < 0")
      case b: True
      with True eq have "natString (nat (- a)) = natString (nat (- b))"
        by (simp add: toString_def)
      then have "nat (- a) = nat (- b)" by (rule natString_inj)
      with True b show ?thesis by simp
    next
      case b: False
      with True eq have "natString (nat b) = CHR ''-'' # natString (nat (- a))"
        by (simp add: toString_def)
      then have "hd (natString (nat b)) = CHR ''-''" by simp
      then show ?thesis by (simp add: hd_natString)
    qed
  next
    case False
    show ?thesis
    proof (cases "b < 0")
      case b: True
      with False eq have "natString (nat a) = CHR ''-'' # natString (nat (- b))"
        by (simp add: toString_def)
      then have "hd (natString (nat a)) = CHR ''-''" by simp
      then show ?thesis by (simp add: hd_natString)
    next
      case b: False
      with False eq have "natString (nat a) = natString (nat b)"
        by (simp add: toString_def)
      then have "nat a = nat b" by (rule natString_inj)
      with False b show ?thesis by simp
    qed
  qed
qed simp

lemma toString_small: "toString 1 = ''1''" "toString 2 = ''2''"
  by code_simp+

lemma distinct_map_toString: "distinct (map toString ts) = distinct ts"
  by (simp add: distinct_map inj_on_def toString_inj)

text \<open>
  Claim C9, as the code has it. The id of a post and of a notification is the decimal rendering
  of the clock reading taken when it is made. When the ids in the queue render pairwise
  different readings and the reading taken for a new post is none of them, the ids stay
  pairwise different after \<open>handleSchedule\<close>, \<open>handlePostNow\<close> and the auto-pilot
  callback; likewise for the notifications and the reading taken by \<open>addNotification\<close>.
\<close>

theorem ids_unique_at_new_readings:
  assumes posts_read: "map tweet_id (posts s) = map toString ps" "distinct ps"
    and notifs_read: "map notif_id (notifications s) = map toString ns" "distinct ns"
    and fresh: "t1 \<notin> set ps" "tn \<notin> set ns"
  shows "map tweet_id (posts (handleSchedule c t1 t2 t3 tn s)) = map toString (t1 # ps) \<and>
         distinct (map tweet_id (posts (handleSchedule c t1 t2 t3 tn s))) \<and>
         map notif_id (notifications (handleSchedule c t1 t2 t3 tn s)) = map toString (ns @ [tn]) \<and>
         distinct (map notif_id (notifications (handleSchedule c t1 t2 t3 tn s))) \<and>
         map tweet_id (posts (handlePostNow c t1 t2 tn s)) = map toString (t1 # ps) \<and>
         distinct (map tweet_id (posts (handlePostNow c t1 t2 tn s))) \<and>
         map notif_id (notifications (handlePostNow c t1 t2 tn s)) = map toString (ns @ [tn]) \<and>
         distinct (map notif_id (notifications (handlePostNow c t1 t2 tn s))) \<and>
         map tweet_id (posts (callbackSettled (Inr tweet) t1 t2 tn s)) = map toString (t1 # ps) \<and>
         distinct (map tweet_id (posts (callbackSettled (Inr tweet) t1 t2 tn s))) \<and>
         map notif_id (notifications (callbackSettled (Inr tweet) t1 t2 tn s)) =
           map toString (ns @ [tn]) \<and>
         distinct (map notif_id (notifications (callbackSettled (Inr tweet) t1 t2 tn s))) \<and>
         map notif_id (notifications (addNotification tn msg ty s)) = map toString (ns @ [tn]) \<and>
         distinct (map notif_id (notifications (addNotification tn msg ty s))) \<and>
         (toString a = toString b) = (a = b)"
proof -
  have p: "distinct (map toString (t1 # ps))"
    using posts_read(2) fresh(1) by (simp only: distinct_map_toString) simp
  have n: "distinct (map toString (ns @ [tn]))"
    using notifs_read(2) fresh(2) by (simp only: distinct_map_toString) simp
  have "map tweet_id (posts (handleSchedule c t1 t2 t3 tn s)) = map toString (t1 # ps)"
    "map tweet_id (posts (handlePostNow c t1 t2 tn s)) = map toString (t1 # ps)"
    "map tweet_id (posts (callbackSettled (Inr tweet) t1 t2 tn s)) = map toString (t1 # ps)"
    by (simp_all add: handleSchedule_def handlePostNow_def callbackSettled_def addNotification_def
        posts_read(1))
  moreover have
    "map notif_id (notifications (handleSchedule c t1 t2 t3 tn s)) = map toString (ns @ [tn])"
    "map notif_id (notifications (handlePostNow c t1 t2 tn s)) = map toString (ns @ [tn])"
    "map notif_id (notifications (callbackSettled (Inr tweet) t1 t2 tn s)) = map toString (ns @ [tn])"
    "map notif_id (notifications (addNotification tn msg ty s)) = map toString (ns @ [tn])"
    by (simp_all add: handleSchedule_def handlePostNow_def callbackSettled_def addNotification_def
        notifs_read(1))
  ultimately show ?thesis using p n by (simp add: toString_inj)
qed

lemma connectedState_ids:
  "map tweet_id (posts connectedState) = map toString [1, 2]"
  "map notif_id (notifications connectedState) = map toString [1700000001500]"
  by (simp_all add: connectedState_def initialState_def initialUser_def run_defs toString_small)

theorem ids_unique_at_new_readings_witness:
  "map tweet_id (posts (handlePostNow ''Hello'' 1700000009000 1700000009000 1700000009000
      connectedState)) = map toString [1700000009000, 1, 2] \<and>
   distinct (map tweet_id (posts (handlePostNow ''Hello'' 1700000009000 1700000009000 1700000009000
      connectedState))) \<and>
   distinct (map notif_id (notifications (handlePostNow ''Hello'' 1700000009000 1700000009000
      1700000009000 connectedState)))"
proof -
  have "distinct [1, 2 :: int]" "distinct [1700000001500 :: int]"
    "(1700000009000 :: int) \<notin> set [1, 2]" "(1700000009000 :: int) \<notin> set [1700000001500]"
    by simp_all
  from ids_unique_at_new_readings [OF connectedState_ids(1) this(1) connectedState_ids(2) this(2)
      this(3) this(4), of "''Hello''" 1700000009000]
  show ?thesis by (simp add: toString_inj)
qed

text \<open>
  The claim as stated (ids are unique whatever the times of creation) is false: two candidates
  published at one clock reading give two posts, and two notifications, with one id.
\<close>

theorem same_reading_counterexample:
  "map tweet_id (posts postedTwice) =
     [toString 1700000009000, toString 1700000009000, ''1'', ''2''] \<and>
   \<not> distinct (map tweet_id (posts postedTwice)) \<and>
   \<not> distinct (map notif_id (notifications postedTwice))"
  by (simp add: postedTwice_def connectedState_def initialState_def initialUser_def run_defs
      handlePostNow_def)

end
